theory Spec2Isabelle
  imports Main
begin

section \<open>Data model of \<open>bin/copy_videos.py\<close>\<close>

text \<open>
  The script copies videos from a source account to a destination account.  Its three
  functions \<open>process_videos_list\<close>, \<open>download_video\<close> and \<open>upload_video\<close> are embedded
  below, line by line.  Everything the script does beyond returning a value is explicit:
  the file system, the log, the heap of \<open>Video\<close> objects and raised exceptions.
\<close>

type_synonym path = string

text \<open>The two module-level connections \<open>OLDCONN\<close> and \<open>NEWCONN\<close>.\<close>

datatype conn = OLDCONN | NEWCONN

text \<open>A rendition as the script reads it: \<open>rendition.url\<close> (may be \<open>None\<close>),
  \<open>rendition.size\<close> and \<open>rendition.video_codec\<close>.\<close>

record rendition =
  url :: "string option"
  size_r :: int
  video_codec :: string

text \<open>A \<open>Video\<close> object with the attributes the script reads or assigns:
  \<open>v.id\<close>, \<open>v.connection\<close>, \<open>v.renditions\<close>, \<open>v._filename\<close> and the custom fields.\<close>

record video =
  id_v :: "string option"
  connection :: conn
  renditions :: "rendition list option"
  filename_v :: "string option"
  custom_fields :: "(string \<times> string) list"

text \<open>What a Python variable holding the result of \<open>download_video\<close> or \<open>upload_video\<close>
  can be: \<open>None\<close>, \<open>False\<close>, or a reference to a \<open>Video\<close> object on the heap.\<close>

datatype pyval = PyNone | PyFalse | PyRef nat

text \<open>Python exceptions: the ones the script raises or lets through, and the four it
  names in \<open>except\<close> clauses.  \<open>IllegalValueError\<close> carries its \<open>code\<close> and
  \<open>description\<close>, \<open>HTTPError\<close> its \<open>code\<close>, \<open>URLError\<close> its \<open>reason\<close>, each as \<open>%s\<close>
  prints it.\<close>

datatype exn =
    SystemExit int
  | NameError string
  | AttributeError string
  | TypeError string
  | NoDataFoundError
  | IllegalValueError string string
  | HTTPError string
  | URLError string

text \<open>An open HTTP response: the bytes still to be read and how the stream ends once
  they are consumed (\<open>None\<close>: end of file; \<open>Some e\<close>: the next read raises \<open>e\<close>).\<close>

datatype response = Response string "exn option"

text \<open>
  The remote collaborators.  They belong to the platform SDK and to \<open>urllib2\<close>, not to
  the script, and are parameters of the model:
  \<^item> \<open>find_video i\<close>: the record that \<open>Video(id=i, _connection=OLDCONN, ...)\<close> loads from
    the source account, or the exception the constructor raises (\<open>NoDataFoundError\<close>
    when the account has no such video);
  \<^item> \<open>urlopen u\<close>: \<open>urllib2.urlopen(u)\<close>, an exception or an open response;
  \<^item> \<open>create_video v\<close>: what the destination account answers when \<open>v\<close> is submitted:
    an exception (\<open>IllegalValueError\<close> when it rejects a field) or the identifier it
    assigns.
\<close>

record remote =
  find_video :: "string \<Rightarrow> exn + video"
  urlopen :: "string \<Rightarrow> exn + response"
  create_video :: "video \<Rightarrow> exn + string"

datatype level = INFO | WARNING | CRITICAL

text \<open>
  The state the script acts on:
  \<^item> \<open>fs\<close>: the regular files on disk, by path, with their contents;
  \<^item> \<open>open_w\<close>: the files currently open for writing, with the data written to each
    handle so far; the data reaches \<open>fs\<close> when the handle is closed;
  \<^item> \<open>wtrace\<close>: every \<open>write\<close> call in order (path and data), kept for reasoning;
  \<^item> \<open>log\<close>: the records the root logger emits (level \<open>INFO\<close> and above);
  \<^item> \<open>heap\<close>: the \<open>Video\<close> objects, addressed by position.
\<close>

record world =
  fs :: "path \<rightharpoonup> string"
  open_w :: "path \<rightharpoonup> string"
  wtrace :: "(path \<times> string) list"
  log :: "(level \<times> string) list"
  heap :: "video list"

section \<open>Primitive operations\<close>

definition logger_info :: "string \<Rightarrow> world \<Rightarrow> world" where
  "logger_info msg w = w\<lparr>log := log w @ [(INFO, msg)]\<rparr>"

definition logger_warn :: "string \<Rightarrow> world \<Rightarrow> world" where
  "logger_warn msg w = w\<lparr>log := log w @ [(WARNING, msg)]\<rparr>"

definition logger_critical :: "string \<Rightarrow> world \<Rightarrow> world" where
  "logger_critical msg w = w\<lparr>log := log w @ [(CRITICAL, msg)]\<rparr>"

text \<open>\<open>os.path.isfile\<close>.\<close>

definition isfile :: "world \<Rightarrow> path \<Rightarrow> bool" where
  "isfile w p = (fs w p \<noteq> None)"

text \<open>\<open>open(p, "w")\<close>: the file is created empty (or truncated) at once.\<close>

definition fopen_w :: "path \<Rightarrow> world \<Rightarrow> world" where
  "fopen_w p w = w\<lparr>fs := (fs w)(p \<mapsto> []), open_w := (open_w w)(p \<mapsto> [])\<rparr>"

text \<open>\<open>fh.write(s)\<close> on the handle opened for \<open>p\<close>.\<close>

definition fwrite :: "path \<Rightarrow> string \<Rightarrow> world \<Rightarrow> world" where
  "fwrite p s w =
     w\<lparr>open_w := (open_w w)(p \<mapsto> (case open_w w p of None \<Rightarrow> [] | Some b \<Rightarrow> b) @ s),
       wtrace := wtrace w @ [(p, s)]\<rparr>"

text \<open>\<open>fh.close()\<close>, also the exit of a \<open>with\<close> block: the data written reaches the disk.\<close>

definition fclose :: "path \<Rightarrow> world \<Rightarrow> world" where
  "fclose p w =
     (case open_w w p of
        None \<Rightarrow> w
      | Some b \<Rightarrow> w\<lparr>fs := (fs w)(p \<mapsto> b), open_w := (open_w w)(p := None)\<rparr>)"

text \<open>\<open>str(x)\<close> of an attribute that is a string or \<open>None\<close>.\<close>

definition str_opt :: "string option \<Rightarrow> string" where
  "str_opt x = (case x of None \<Rightarrow> ''None'' | Some s \<Rightarrow> s)"

text \<open>\<open>s.startswith(p)\<close>.\<close>

definition startswith :: "string \<Rightarrow> string \<Rightarrow> bool" where
  "startswith s p = (take (length p) s = p)"

text \<open>\<open>str.strip()\<close>: removes leading and trailing whitespace
  (space, tab, line feed, vertical tab, form feed, carriage return).\<close>

definition is_space :: "char \<Rightarrow> bool" where
  "is_space c = (c \<in> set [CHR 0x20, CHR 0x09, CHR 0x0A, CHR 0x0B, CHR 0x0C, CHR 0x0D])"

definition strip :: "string \<Rightarrow> string" where
  "strip s = rev (dropWhile is_space (rev (dropWhile is_space s)))"

text \<open>\<open>for line in open(fname)\<close>: the lines of a file, each with its line feed;
  \<open>cur\<close> is the line being collected.\<close>

fun file_lines_from :: "string \<Rightarrow> string \<Rightarrow> string list" where
  "file_lines_from cur [] = (if cur = [] then [] else [cur])"
| "file_lines_from cur (c # cs) =
     (if c = CHR 0x0A then (cur @ [c]) # file_lines_from [] cs
      else file_lines_from (cur @ [c]) cs)"

definition file_lines :: "string \<Rightarrow> string list" where
  "file_lines s = file_lines_from [] s"

text \<open>\<open>os.path.basename\<close>: what follows the last slash.\<close>

definition basename :: "path \<Rightarrow> string" where
  "basename p = rev (takeWhile (\<lambda>c. c \<noteq> CHR ''/'') (rev p))"

text \<open>Heap access: allocate a new object, assign through a reference.\<close>

definition alloc :: "video \<Rightarrow> world \<Rightarrow> nat \<times> world" where
  "alloc v w = (length (heap w), w\<lparr>heap := heap w @ [v]\<rparr>)"

definition assign :: "nat \<Rightarrow> (video \<Rightarrow> video) \<Rightarrow> world \<Rightarrow> world" where
  "assign a f w = w\<lparr>heap := (heap w)[a := f (heap w ! a)]\<rparr>"

section \<open>Globals\<close>

definition DOWNLOAD_DIR :: string where
  "DOWNLOAD_DIR = ''./downloads/''"

definition CHUNK :: nat where
  "CHUNK = 4096"

section \<open>Rendition selection (\<open>download_video\<close>, lines 112 to 119)\<close>

text \<open>The guard of line 115.\<close>

definition eligible :: "rendition \<Rightarrow> bool" where
  "eligible r = (case url r of None \<Rightarrow> False | Some u \<Rightarrow> startswith u ''http'')"

text \<open>One pass of the loop body, lines 115 to 119.\<close>

definition best_step :: "rendition option \<Rightarrow> rendition \<Rightarrow> rendition option" where
  "best_step best r =
     (if eligible r then
        (case best of
           None \<Rightarrow> Some r
         | Some b \<Rightarrow> if size_r r > size_r b then Some r else Some b)
      else best)"

fun best_loop :: "rendition option \<Rightarrow> rendition list \<Rightarrow> rendition option" where
  "best_loop best [] = best"
| "best_loop best (r # rs) = best_loop (best_step best r) rs"

text \<open>Lines 113 to 119: \<open>best_rendition = None\<close>, then the loop.\<close>

definition best_rendition :: "rendition list \<Rightarrow> rendition option" where
  "best_rendition rs = best_loop None rs"

section \<open>The streaming copy (\<open>download_video\<close>, lines 135 to 143)\<close>

text \<open>\<open>req.read(n)\<close>: at most \<open>n\<close> of the remaining bytes; the empty string at the end of
  the stream; the stream's error once the bytes before it have been read.\<close>

definition read :: "response \<Rightarrow> nat \<Rightarrow> exn + (string \<times> response)" where
  "read req n =
     (case req of Response body ending \<Rightarrow>
        if body = [] then (case ending of None \<Rightarrow> Inr ([], req) | Some e \<Rightarrow> Inl e)
        else Inr (take n body, Response (drop n body) ending))"

definition remaining :: "response \<Rightarrow> string" where
  "remaining req = (case req of Response body ending \<Rightarrow> body)"

text \<open>The \<open>while True\<close> loop of lines 139 to 143; \<open>fp\<close> is the handle opened for the local
  file.  The result is the counter \<open>downloaded\<close>.\<close>

function copy_loop :: "response \<Rightarrow> nat \<Rightarrow> path \<Rightarrow> world \<Rightarrow> (exn + nat) \<times> world" where
  "copy_loop req downloaded fp w =
     (case read req CHUNK of
        Inl e \<Rightarrow> (Inl e, w)
      | Inr (chunk, req') \<Rightarrow>
          if chunk = [] then (Inr (downloaded + length chunk), w)
          else copy_loop req' (downloaded + length chunk) fp (fwrite fp chunk w))"
  by pat_completeness auto
termination
  by (relation "measure (\<lambda>(req, downloaded, fp, w). length (remaining req))")
     (auto simp: read_def remaining_def CHUNK_def split: response.splits if_splits option.splits)

text \<open>The body of the \<open>try\<close> block, lines 135 to 145: open the URL, copy it to the local
  file inside the \<open>with\<close> block (which closes the file however it is left), then set
  \<open>v._filename\<close>.  \<open>urlopen(None)\<close> fails on the attribute access of its argument.\<close>

definition try_fetch ::
  "remote \<Rightarrow> rendition \<Rightarrow> path \<Rightarrow> nat \<Rightarrow> world \<Rightarrow> (exn + unit) \<times> world" where
  "try_fetch env best fname a w =
     (case (case url best of
              None \<Rightarrow> Inl (AttributeError ''timeout'')
            | Some u \<Rightarrow> urlopen env u) of
        Inl e \<Rightarrow> (Inl e, w)
      | Inr req \<Rightarrow>
          (case copy_loop req 0 fname (fopen_w fname w) of
             (Inl e, w') \<Rightarrow> (Inl e, fclose fname w')
           | (Inr downloaded, w') \<Rightarrow>
               (Inr (), assign a (\<lambda>v. v\<lparr>filename_v := Some fname\<rparr>) (fclose fname w'))))"

text \<open>The name \<open>url\<close>, read by both \<open>except\<close> clauses (lines 147 and 150), is bound
  neither in \<open>download_video\<close> nor at module level: reading it raises \<open>NameError\<close>.\<close>

definition load_url :: "exn + string" where
  "load_url = Inl (NameError ''url'')"

section \<open>\<open>download_video\<close> (lines 102 to 152)\<close>

definition download_video :: "remote \<Rightarrow> string \<Rightarrow> world \<Rightarrow> (exn + pyval) \<times> world" where
  "download_video env i w =
     (let w1 = logger_info (''Video('' @ i @ '')'') w in
      case find_video env i of
        Inl NoDataFoundError \<Rightarrow>
          (Inr PyNone, logger_warn (''  **> No data found for ('' @ i @ '')'') w1)
      | Inl e \<Rightarrow> (Inl e, w1)
      | Inr loaded \<Rightarrow>
          (case alloc (loaded\<lparr>connection := OLDCONN\<rparr>) w1 of (a, w2) \<Rightarrow>
           (case renditions (heap w2 ! a) of
             None \<Rightarrow> (Inl (TypeError ''NoneType is not iterable''), w2)
           | Some rs \<Rightarrow>
               (case best_rendition rs of
                  None \<Rightarrow>
                    (Inr PyNone,
                     logger_warn (''  No best rendition found for ('' @ i @ ''). Skipping.'') w2)
                | Some best \<Rightarrow>
                    (let fname0 = DOWNLOAD_DIR @ i;
                         fname =
                           (if video_codec best = ''H264'' then fname0 @ ''.mp4''
                            else if video_codec best = ''M2TS'' then fname0 @ ''.m2ts''
                            else fname0);
                         w3 = logger_info
                                (''  fetching ID('' @ str_opt (id_v (heap w2 ! a)) @ '') codec(''
                                 @ video_codec best @ '') to ('' @ fname @ '')'') w2
                     in case try_fetch env best fname a w3 of
                          (Inl (HTTPError code), w4) \<Rightarrow>
                            (case load_url of
                               Inl x \<Rightarrow> (Inl x, w4)
                             | Inr u \<Rightarrow>
                                 (Inr PyFalse,
                                  logger_warn (''HTTP Error: '' @ code @ '' - ('' @ u @ '')'') w4))
                        | (Inl (URLError reason), w4) \<Rightarrow>
                            (case load_url of
                               Inl x \<Rightarrow> (Inl x, w4)
                             | Inr u \<Rightarrow>
                                 (Inr PyFalse,
                                  logger_warn (''URL Error: '' @ reason @ '' - ('' @ u @ '')'') w4))
                        | (Inl e, w4) \<Rightarrow> (Inl e, w4)
                        | (Inr u, w4) \<Rightarrow> (Inr (PyRef a), w4))))))"

section \<open>\<open>upload_video\<close> (lines 154 to 164)\<close>

text \<open>
  Modelled from the spec: \<open>Video.save\<close> is the SDK's, which is not among the sources.
  The record is submitted for creation in the destination account, which either rejects
  it or assigns a new identifier, stored in \<open>v.id\<close>.
\<close>

definition save :: "remote \<Rightarrow> nat \<Rightarrow> world \<Rightarrow> (exn + unit) \<times> world" where
  "save env a w =
     (case create_video env (heap w ! a) of
        Inl e \<Rightarrow> (Inl e, w)
      | Inr new_id \<Rightarrow> (Inr (), assign a (\<lambda>v. v\<lparr>id_v := Some new_id\<rparr>) w))"

definition upload_video :: "remote \<Rightarrow> pyval \<Rightarrow> world \<Rightarrow> (exn + pyval) \<times> world" where
  "upload_video env v w =
     (case v of
        PyNone \<Rightarrow> (Inl (AttributeError ''connection''), w)
      | PyFalse \<Rightarrow> (Inl (AttributeError ''connection''), w)
      | PyRef a \<Rightarrow>
          (let w1 = assign a (\<lambda>obj. obj\<lparr>connection := NEWCONN\<rparr>) w;
               w2 = assign a (\<lambda>obj. obj\<lparr>id_v := None\<rparr>) w1;
               w3 = assign a (\<lambda>obj. obj\<lparr>renditions := None\<rparr>) w2
           in case save env a w3 of
                (Inl (IllegalValueError code description), w4) \<Rightarrow>
                  (Inr PyNone,
                   logger_warn (''  Upload error: ('' @ code @ '') - '' @ description) w4)
              | (Inl e, w4) \<Rightarrow> (Inl e, w4)
              | (Inr u, w4) \<Rightarrow> (Inr (PyRef a), w4)))"

section \<open>\<open>record_old_new_ids\<close> and \<open>process_videos_list\<close> (lines 74 to 100, 166 to 168)\<close>

definition dq :: string where
  "dq = [CHR 0x22]"

definition nl :: string where
  "nl = [CHR 0x0A]"

definition record_old_new_ids :: "path \<Rightarrow> string \<Rightarrow> string option \<Rightarrow> world \<Rightarrow> world" where
  "record_old_new_ids fh oldid newid w =
     fwrite fh (dq @ oldid @ dq @ '','' @ dq @ str_opt newid @ dq @ nl) w"

text \<open>The header line written at line 90.\<close>

definition csv_header :: string where
  "csv_header = dq @ ''old_id'' @ dq @ '','' @ dq @ ''new_id'' @ dq @ nl"

text \<open>\<open>v.id\<close> read through a variable.\<close>

definition get_id :: "pyval \<Rightarrow> world \<Rightarrow> exn + string option" where
  "get_id v w =
     (case v of
        PyRef a \<Rightarrow> Inr (id_v (heap w ! a))
      | PyNone \<Rightarrow> Inl (AttributeError ''id'')
      | PyFalse \<Rightarrow> Inl (AttributeError ''id''))"

text \<open>\<open>v.id = x\<close> through a variable.\<close>

definition set_id :: "pyval \<Rightarrow> string \<Rightarrow> world \<Rightarrow> (exn + unit) \<times> world" where
  "set_id v x w =
     (case v of
        PyRef a \<Rightarrow> (Inr (), assign a (\<lambda>obj. obj\<lparr>id_v := Some x\<rparr>) w)
      | PyNone \<Rightarrow> (Inl (AttributeError ''id''), w)
      | PyFalse \<Rightarrow> (Inl (AttributeError ''id''), w))"

text \<open>The loop of lines 92 to 98 over the identifiers; \<open>csv\<close> is the open handle.\<close>

fun process_ids :: "remote \<Rightarrow> path \<Rightarrow> string list \<Rightarrow> world \<Rightarrow> (exn + unit) \<times> world" where
  "process_ids env csv [] w = (Inr (), w)"
| "process_ids env csv (oldId # rest) w =
     (case download_video env oldId w of
        (Inl e, w1) \<Rightarrow> (Inl e, w1)
      | (Inr v, w1) \<Rightarrow>
          if v \<noteq> PyNone then
            (case upload_video env v w1 of
               (Inl e, w2) \<Rightarrow> (Inl e, w2)
             | (Inr v', w2) \<Rightarrow>
                 if v' \<noteq> PyNone then
                   (case get_id v' w2 of
                      Inl e \<Rightarrow> (Inl e, w2)
                    | Inr new_id \<Rightarrow>
                        (case set_id v' oldId (record_old_new_ids csv oldId new_id w2) of
                           (Inl e, w3) \<Rightarrow> (Inl e, w3)
                         | (Inr u, w3) \<Rightarrow> process_ids env csv rest w3))
                 else process_ids env csv rest w2)
          else process_ids env csv rest w1)"

text \<open>The name of the mapping file, line 83.\<close>

definition csvfname_of :: "path \<Rightarrow> path" where
  "csvfname_of fname = ''./old_new_ids-'' @ basename fname @ ''.csv''"

text \<open>\<open>process_videos_list(fname)\<close>.  Line 81 reads the module-level variable \<open>name\<close>,
  which the main loop binds; it is the parameter \<open>name\<close> here.\<close>

definition process_videos_list ::
  "remote \<Rightarrow> string \<Rightarrow> path \<Rightarrow> world \<Rightarrow> (exn + unit) \<times> world" where
  "process_videos_list env name fname w =
     (case (if isfile w fname then fs w fname else None) of
        None \<Rightarrow> (Inr (), logger_warn (''File not found! ('' @ fname @ '')'') w)
      | Some content \<Rightarrow>
          (let lines = map strip (file_lines content);
               w1 = logger_info (''Starting ('' @ name @ '')'') w;
               csvfname = csvfname_of fname
           in if isfile w1 csvfname then
                (Inl (SystemExit 1),
                 logger_critical
                   (''CSV file already exists! ('' @ csvfname @ '').  Exiting.'') w1)
              else
                (let w2 = fopen_w csvfname w1;
                     w3 = logger_info (''Recording old_id,new_id to ('' @ csvfname @ '')'') w2;
                     w4 = fwrite csvfname csv_header w3
                 in case process_ids env csvfname lines w4 of
                      (Inl e, w5) \<Rightarrow> (Inl e, w5)
                    | (Inr u, w5) \<Rightarrow> (Inr (), fclose csvfname w5))))"

section \<open>The main program (lines 173 to 190)\<close>

text \<open>The loop over \<open>sys.argv[1:]\<close>, lines 187 and 188.\<close>

fun process_all :: "remote \<Rightarrow> string list \<Rightarrow> world \<Rightarrow> (exn + unit) \<times> world" where
  "process_all env [] w = (Inr (), w)"
| "process_all env (name # names) w =
     (case process_videos_list env name name w of
        (Inl e, w1) \<Rightarrow> (Inl e, w1)
      | (Inr u, w1) \<Rightarrow> process_all env names w1)"

text \<open>The module body.  The download directory is created if absent; directories are
  not part of \<open>fs\<close>, so the step leaves the state as it is.\<close>

definition main :: "remote \<Rightarrow> string list \<Rightarrow> world \<Rightarrow> (exn + unit) \<times> world" where
  "main env argv w =
     (case process_all env argv (logger_info ''Start'' w) of
        (Inl e, w1) \<Rightarrow> (Inl e, w1)
      | (Inr u, w1) \<Rightarrow> (Inr (), logger_info ''Done.'' w1))"

text \<open>The exit status of the interpreter: 0 when the module body ends, the argument of
  \<open>sys.exit\<close>, and 1 for any other exception that is not caught.\<close>

definition exit_status :: "exn + unit \<Rightarrow> int" where
  "exit_status r =
     (case r of
        Inr u \<Rightarrow> 0
      | Inl (SystemExit n) \<Rightarrow> n
      | Inl e \<Rightarrow> 1)"

section \<open>Notions used in the statements\<close>

text \<open>The pieces a byte string is cut into when it is read \<open>n\<close> bytes at a time.\<close>

function chunks :: "nat \<Rightarrow> string \<Rightarrow> string list" where
  "chunks n xs = (if n = 0 \<or> xs = [] then [] else take n xs # chunks n (drop n xs))"
  by pat_completeness auto
termination
  by (relation "measure (\<lambda>(n, xs). length xs)") auto

text \<open>The local file name computed at lines 126 to 130.\<close>

definition local_name :: "string \<Rightarrow> rendition \<Rightarrow> path" where
  "local_name i best =
     DOWNLOAD_DIR @ i @
       (if video_codec best = ''H264'' then ''.mp4''
        else if video_codec best = ''M2TS'' then ''.m2ts'' else [])"

section \<open>Example inputs\<close>

text \<open>A small source account, transport and destination account, used to evaluate
  the model on concrete inputs.\<close>

definition exr_low :: rendition where
  "exr_low = \<lparr>url = Some ''http://cdn/a_low'', size_r = 10, video_codec = ''H264''\<rparr>"

definition exr_high :: rendition where
  "exr_high = \<lparr>url = Some ''http://cdn/a_high'', size_r = 50, video_codec = ''H264''\<rparr>"

definition exr_tie :: rendition where
  "exr_tie = \<lparr>url = Some ''http://cdn/a_tie'', size_r = 50, video_codec = ''M2TS''\<rparr>"

definition exr_rtmp :: rendition where
  "exr_rtmp = \<lparr>url = Some ''rtmp://cdn/a'', size_r = 90, video_codec = ''H264''\<rparr>"

definition exr_nourl :: rendition where
  "exr_nourl = \<lparr>url = None, size_r = 99, video_codec = ''H264''\<rparr>"

definition exr_c :: rendition where
  "exr_c = \<lparr>url = Some ''http://cdn/c'', size_r = 3, video_codec = ''M2TS''\<rparr>"

definition exr_e :: rendition where
  "exr_e = \<lparr>url = Some ''http://cdn/e'', size_r = 7, video_codec = ''H264''\<rparr>"

definition exr_f :: rendition where
  "exr_f = \<lparr>url = Some ''http://cdn/f'', size_r = 2, video_codec = ''VP8''\<rparr>"

definition exr_g :: rendition where
  "exr_g = \<lparr>url = Some ''http://cdn/g'', size_r = 5, video_codec = ''H264''\<rparr>"

definition ex_video :: "string \<Rightarrow> rendition list \<Rightarrow> video" where
  "ex_video i rs =
     \<lparr>id_v = Some i, connection = OLDCONN, renditions = Some rs, filename_v = None,
      custom_fields = []\<rparr>"

definition ex_remote :: remote where
  "ex_remote =
     \<lparr>find_video = (\<lambda>i.
        if i = ''A'' then Inr (ex_video ''A'' [exr_low, exr_high, exr_tie, exr_rtmp, exr_nourl])
        else if i = ''C'' then Inr (ex_video ''C'' [exr_c])
        else if i = ''D'' then Inr (ex_video ''D'' [exr_rtmp, exr_nourl])
        else if i = ''E'' then Inr (ex_video ''E'' [exr_e])
        else if i = ''F'' then Inr (ex_video ''F'' [exr_f])
        else if i = ''G'' then Inr (ex_video ''G'' [exr_g])
        else Inl NoDataFoundError),
      urlopen = (\<lambda>u.
        if u = ''http://cdn/a_high'' then Inr (Response ''aaaa'' None)
        else if u = ''http://cdn/c'' then Inr (Response ''ccc'' None)
        else if u = ''http://cdn/f'' then Inr (Response ''ff'' None)
        else if u = ''http://cdn/g'' then Inr (Response ''gg'' (Some (URLError ''reset'')))
        else Inl (HTTPError ''404'')),
      create_video = (\<lambda>v.
        if filename_v v = Some ''./downloads/A.mp4'' then Inr ''1001''
        else if filename_v v = Some ''./downloads/C.m2ts'' then Inr ''1003''
        else Inl (IllegalValueError ''304'' ''invalid name''))\<rparr>"

definition ex_world :: "(path \<times> string) list \<Rightarrow> world" where
  "ex_world files =
     \<lparr>fs = map_of files, open_w = Map.empty, wtrace = [], log = [], heap = []\<rparr>"

section \<open>Rendition selection: the loop computes the first largest eligible rendition\<close>

lemma best_step_not_eligible: "\<not> eligible r \<Longrightarrow> best_step best r = best"
  by (simp add: best_step_def)

lemma best_loop_filter: "best_loop best rs = best_loop best (filter eligible rs)"
proof (induction rs arbitrary: best)
  case Nil
  show ?case by simp
next
  case (Cons r rs)
  show ?case
  proof (cases "eligible r")
    case True
    then show ?thesis using Cons.IH [of "best_step best r"] by simp
  next
    case False
    then show ?thesis using Cons.IH [of best] by (simp add: best_step_not_eligible)
  qed
qed

lemma best_loop_Some:
  assumes "\<forall>x\<in>set es. eligible x"
  shows "\<exists>r. best_loop (Some b) es = Some r \<and>
           ((r = b \<and> (\<forall>x\<in>set es. size_r x \<le> size_r b)) \<or>
            (\<exists>pre post. es = pre @ r # post \<and> size_r b < size_r r \<and>
               (\<forall>x\<in>set pre. size_r x < size_r r) \<and> (\<forall>x\<in>set post. size_r x \<le> size_r r)))"
  using assms
proof (induction es arbitrary: b)
  case Nil
  show ?case by simp
next
  case (Cons e es)
  have el: "eligible e" and rest: "\<forall>x\<in>set es. eligible x" using Cons.prems by simp_all
  show ?case
  proof (cases "size_r e > size_r b")
    case True
    then have step: "best_loop (Some b) (e # es) = best_loop (Some e) es"
      using el by (simp add: best_step_def)
    from Cons.IH [OF rest, of e] obtain r where
      r: "best_loop (Some e) es = Some r" and
      d: "(r = e \<and> (\<forall>x\<in>set es. size_r x \<le> size_r e)) \<or>
          (\<exists>pre post. es = pre @ r # post \<and> size_r e < size_r r \<and>
             (\<forall>x\<in>set pre. size_r x < size_r r) \<and> (\<forall>x\<in>set post. size_r x \<le> size_r r))"
      by blast
    from d show ?thesis
    proof
      assume a: "r = e \<and> (\<forall>x\<in>set es. size_r x \<le> size_r e)"
      then have "\<exists>pre post. e # es = pre @ r # post \<and> size_r b < size_r r \<and>
          (\<forall>x\<in>set pre. size_r x < size_r r) \<and> (\<forall>x\<in>set post. size_r x \<le> size_r r)"
        using True by (intro exI [of _ "[]"] exI [of _ es]) simp
      then show ?thesis using step r by simp
    next
      assume "\<exists>pre post. es = pre @ r # post \<and> size_r e < size_r r \<and>
             (\<forall>x\<in>set pre. size_r x < size_r r) \<and> (\<forall>x\<in>set post. size_r x \<le> size_r r)"
      then obtain pre post where p: "es = pre @ r # post" "size_r e < size_r r"
        "\<forall>x\<in>set pre. size_r x < size_r r" "\<forall>x\<in>set post. size_r x \<le> size_r r" by blast
      then have "\<exists>pre' post. e # es = pre' @ r # post \<and> size_r b < size_r r \<and>
          (\<forall>x\<in>set pre'. size_r x < size_r r) \<and> (\<forall>x\<in>set post. size_r x \<le> size_r r)"
        using True by (intro exI [of _ "e # pre"] exI [of _ post]) simp
      then show ?thesis using step r by simp
    qed
  next
    case False
    then have step: "best_loop (Some b) (e # es) = best_loop (Some b) es"
      using el by (simp add: best_step_def)
    from Cons.IH [OF rest, of b] obtain r where
      r: "best_loop (Some b) es = Some r" and
      d: "(r = b \<and> (\<forall>x\<in>set es. size_r x \<le> size_r b)) \<or>
          (\<exists>pre post. es = pre @ r # post \<and> size_r b < size_r r \<and>
             (\<forall>x\<in>set pre. size_r x < size_r r) \<and> (\<forall>x\<in>set post. size_r x \<le> size_r r))"
      by blast
    from d show ?thesis
    proof
      assume "r = b \<and> (\<forall>x\<in>set es. size_r x \<le> size_r b)"
      then have "r = b \<and> (\<forall>x\<in>set (e # es). size_r x \<le> size_r b)" using False by simp
      then show ?thesis using step r by simp
    next
      assume "\<exists>pre post. es = pre @ r # post \<and> size_r b < size_r r \<and>
             (\<forall>x\<in>set pre. size_r x < size_r r) \<and> (\<forall>x\<in>set post. size_r x \<le> size_r r)"
      then obtain pre post where p: "es = pre @ r # post" "size_r b < size_r r"
        "\<forall>x\<in>set pre. size_r x < size_r r" "\<forall>x\<in>set post. size_r x \<le> size_r r" by blast
      then have "\<exists>pre' post. e # es = pre' @ r # post \<and> size_r b < size_r r \<and>
          (\<forall>x\<in>set pre'. size_r x < size_r r) \<and> (\<forall>x\<in>set post. size_r x \<le> size_r r)"
        using False by (intro exI [of _ "e # pre"] exI [of _ post]) simp
      then show ?thesis using step r by simp
    qed
  qed
qed

lemma best_rendition_none: "filter eligible rs = [] \<Longrightarrow> best_rendition rs = None"
  using best_loop_filter [of None rs] by (simp add: best_rendition_def)

lemma best_rendition_first_max:
  assumes "filter eligible rs \<noteq> []"
  shows "\<exists>pre r post. filter eligible rs = pre @ r # post \<and> best_rendition rs = Some r \<and>
           (\<forall>x\<in>set pre. size_r x < size_r r) \<and> (\<forall>x\<in>set post. size_r x \<le> size_r r)"
proof -
  obtain e es where es: "filter eligible rs = e # es" using assms by (cases "filter eligible rs") auto
  have "set (e # es) = {x \<in> set rs. eligible x}"
    using es set_filter [of eligible rs] by simp
  then have all: "\<forall>x\<in>set (e # es). eligible x" by blast
  then have el: "eligible e" and rest: "\<forall>x\<in>set es. eligible x" by simp_all
  have start: "best_rendition rs = best_loop (Some e) es"
    using best_loop_filter [of None rs] es el by (simp add: best_rendition_def best_step_def)
  from best_loop_Some [OF rest, of e] obtain r where
    r: "best_loop (Some e) es = Some r" and
    d: "(r = e \<and> (\<forall>x\<in>set es. size_r x \<le> size_r e)) \<or>
        (\<exists>pre post. es = pre @ r # post \<and> size_r e < size_r r \<and>
           (\<forall>x\<in>set pre. size_r x < size_r r) \<and> (\<forall>x\<in>set post. size_r x \<le> size_r r))"
    by blast
  from d show ?thesis
  proof
    assume "r = e \<and> (\<forall>x\<in>set es. size_r x \<le> size_r e)"
    then show ?thesis
      using es start r by (intro exI [of _ "[]"] exI [of _ r] exI [of _ es]) simp
  next
    assume "\<exists>pre post. es = pre @ r # post \<and> size_r e < size_r r \<and>
           (\<forall>x\<in>set pre. size_r x < size_r r) \<and> (\<forall>x\<in>set post. size_r x \<le> size_r r)"
    then obtain pre post where p: "es = pre @ r # post" "size_r e < size_r r"
      "\<forall>x\<in>set pre. size_r x < size_r r" "\<forall>x\<in>set post. size_r x \<le> size_r r" by blast
    then show ?thesis
      using es start r by (intro exI [of _ "e # pre"] exI [of _ r] exI [of _ post]) simp
  qed
qed

lemma best_rendition_eligible: "best_rendition rs = Some r \<Longrightarrow> eligible r \<and> r \<in> set rs"
proof -
  assume a: "best_rendition rs = Some r"
  have ne: "filter eligible rs \<noteq> []" using a best_rendition_none [of rs] by auto
  from best_rendition_first_max [OF ne] a obtain pre post where
    "filter eligible rs = pre @ r # post" by auto
  then have "r \<in> set (filter eligible rs)" by simp
  then show ?thesis by simp
qed

section \<open>The streaming copy writes the body chunk by chunk\<close>

declare chunks.simps [simp del]
declare copy_loop.simps [simp del]

lemma chunks_Nil: "chunks n [] = []"
  by (simp add: chunks.simps)

lemma chunks_step: "0 < n \<Longrightarrow> xs \<noteq> [] \<Longrightarrow> chunks n xs = take n xs # chunks n (drop n xs)"
  by (subst chunks.simps) simp

lemma chunks_short: "xs \<noteq> [] \<Longrightarrow> length xs \<le> n \<Longrightarrow> chunks n xs = [xs]"
  by (subst chunks.simps) (cases n; simp add: chunks_Nil)

lemma concat_chunks: "0 < n \<Longrightarrow> concat (chunks n xs) = xs"
proof (induction n xs rule: chunks.induct)
  case (1 n xs)
  show ?case
  proof (cases "xs = []")
    case True
    then show ?thesis by (simp add: chunks_Nil)
  next
    case False
    then show ?thesis using 1 by (simp add: chunks_step)
  qed
qed

lemma chunks_bounds: "c \<in> set (chunks n xs) \<Longrightarrow> c \<noteq> [] \<and> length c \<le> n"
proof (induction n xs rule: chunks.induct)
  case (1 n xs)
  show ?case
  proof (cases "n = 0 \<or> xs = []")
    case True
    then show ?thesis using "1.prems" by (subst (asm) chunks.simps) simp
  next
    case False
    then have "c = take n xs \<or> c \<in> set (chunks n (drop n xs))"
      using "1.prems" by (simp add: chunks_step)
    then show ?thesis using False "1.IH" by auto
  qed
qed

lemma chunks_full: "c \<in> set (butlast (chunks n xs)) \<Longrightarrow> length c = n"
proof (induction n xs rule: chunks.induct)
  case (1 n xs)
  show ?case
  proof (cases "n = 0 \<or> xs = []")
    case True
    then show ?thesis using "1.prems" by (subst (asm) chunks.simps) simp
  next
    case False
    show ?thesis
    proof (cases "drop n xs = []")
      case True
      then have "chunks n xs = [take n xs]" using False by (simp add: chunks_step chunks_Nil)
      then show ?thesis using "1.prems" by simp
    next
      case d: False
      then have ne: "chunks n (drop n xs) \<noteq> []" using False by (simp add: chunks_step)
      have "c = take n xs \<or> c \<in> set (butlast (chunks n (drop n xs)))"
        using "1.prems" False ne by (simp add: chunks_step)
      then show ?thesis
      proof
        assume "c = take n xs"
        then show ?thesis using d by simp
      next
        assume "c \<in> set (butlast (chunks n (drop n xs)))"
        then show ?thesis using "1.IH" False by simp
      qed
    qed
  qed
qed

lemma copy_loop_closed:
  "copy_loop (Response body ending) d fp w =
     ((case ending of None \<Rightarrow> Inr (d + length body) | Some e \<Rightarrow> Inl e),
      foldl (\<lambda>w c. fwrite fp c w) w (chunks CHUNK body))"
proof (induction body arbitrary: d w rule: length_induct)
  case (1 body)
  show ?case
  proof (cases "body = []")
    case True
    then show ?thesis
      by (subst copy_loop.simps) (simp add: read_def chunks_Nil split: option.splits)
  next
    case False
    have pos: "0 < CHUNK" by (simp add: CHUNK_def)
    have shorter: "length (drop CHUNK body) < length body" using False pos by simp
    have tk: "take CHUNK body \<noteq> []" using False pos by simp
    have ih: "copy_loop (Response (drop CHUNK body) ending) (d + length (take CHUNK body)) fp
                (fwrite fp (take CHUNK body) w) =
              ((case ending of None \<Rightarrow> Inr (d + length (take CHUNK body) + length (drop CHUNK body))
                | Some e \<Rightarrow> Inl e),
               foldl (\<lambda>w c. fwrite fp c w) (fwrite fp (take CHUNK body) w)
                 (chunks CHUNK (drop CHUNK body)))"
      using 1 shorter by blast
    have len: "d + length (take CHUNK body) + length (drop CHUNK body) = d + length body"
      by (metis add.assoc append_take_drop_id length_append)
    show ?thesis
      apply (subst copy_loop.simps)
      apply (simp only: read_def response.case False if_False sum.case prod.case tk ih len)
      apply (simp add: chunks_step [OF pos False])
      done
  qed
qed

lemma foldl_fwrite:
  "open_w w fp = Some b \<Longrightarrow>
   foldl (\<lambda>w c. fwrite fp c w) w cs =
     w\<lparr>open_w := (open_w w)(fp \<mapsto> b @ concat cs), wtrace := wtrace w @ map (Pair fp) cs\<rparr>"
proof (induction cs arbitrary: w b)
  case Nil
  then show ?case by (simp add: map_upd_triv)
next
  case (Cons c cs)
  have o: "open_w (fwrite fp c w) fp = Some (b @ c)"
    using Cons.prems by (simp add: fwrite_def)
  show ?case
    apply (simp only: foldl.simps Cons.IH [OF o])
    apply (simp add: fwrite_def Cons.prems cong: if_cong)
    done
qed

section \<open>Closed forms of \<open>download_video\<close>\<close>

lemma copy_into_file:
  "fclose fname (snd (copy_loop (Response body ending) 0 fname (fopen_w fname w))) =
     w\<lparr>fs := (fs w)(fname \<mapsto> body), open_w := (open_w w)(fname := None),
       wtrace := wtrace w @ map (Pair fname) (chunks CHUNK body)\<rparr>"
proof -
  have o: "open_w (fopen_w fname w) fname = Some []" by (simp add: fopen_w_def)
  have pos: "0 < CHUNK" by (simp add: CHUNK_def)
  show ?thesis
    apply (simp only: copy_loop_closed snd_conv foldl_fwrite [OF o] concat_chunks [OF pos])
    apply (simp add: fclose_def fopen_w_def)
    done
qed

lemma try_fetch_refused:
  "url best = Some u \<Longrightarrow> urlopen env u = Inl e \<Longrightarrow> try_fetch env best fname a w = (Inl e, w)"
  by (simp add: try_fetch_def)

lemma try_fetch_broken:
  "url best = Some u \<Longrightarrow> urlopen env u = Inr (Response body (Some e)) \<Longrightarrow>
   try_fetch env best fname a w =
     (Inl e, w\<lparr>fs := (fs w)(fname \<mapsto> body), open_w := (open_w w)(fname := None),
               wtrace := wtrace w @ map (Pair fname) (chunks CHUNK body)\<rparr>)"
  using copy_into_file [of fname body "Some e" w]
  by (simp add: try_fetch_def copy_loop_closed)

lemma try_fetch_done:
  "url best = Some u \<Longrightarrow> urlopen env u = Inr (Response body None) \<Longrightarrow>
   try_fetch env best fname a w =
     (Inr (), assign a (\<lambda>v. v\<lparr>filename_v := Some fname\<rparr>)
                (w\<lparr>fs := (fs w)(fname \<mapsto> body), open_w := (open_w w)(fname := None),
                   wtrace := wtrace w @ map (Pair fname) (chunks CHUNK body)\<rparr>))"
  using copy_into_file [of fname body None w]
  by (simp add: try_fetch_def copy_loop_closed)

lemma download_video_not_found:
  "find_video env i = Inl NoDataFoundError \<Longrightarrow>
   download_video env i w =
     (Inr PyNone,
      w\<lparr>log := log w @ [(INFO, ''Video('' @ i @ '')''),
                         (WARNING, ''  **> No data found for ('' @ i @ '')'')]\<rparr>)"
  by (simp add: download_video_def logger_info_def logger_warn_def)

lemma download_video_no_rendition:
  "find_video env i = Inr loaded \<Longrightarrow> renditions loaded = Some rs \<Longrightarrow>
   best_rendition rs = None \<Longrightarrow>
   download_video env i w =
     (Inr PyNone,
      w\<lparr>log := log w @ [(INFO, ''Video('' @ i @ '')''),
                         (WARNING, ''  No best rendition found for ('' @ i @ ''). Skipping.'')],
        heap := heap w @ [loaded\<lparr>connection := OLDCONN\<rparr>]\<rparr>)"
  by (simp add: download_video_def logger_info_def logger_warn_def alloc_def)

lemma download_video_done:
  assumes "find_video env i = Inr loaded" "renditions loaded = Some rs"
    "best_rendition rs = Some best" "url best = Some u"
    "urlopen env u = Inr (Response body None)"
  shows "download_video env i w =
     (Inr (PyRef (length (heap w))),
      w\<lparr>fs := (fs w)(local_name i best \<mapsto> body),
        open_w := (open_w w)(local_name i best := None),
        wtrace := wtrace w @ map (Pair (local_name i best)) (chunks CHUNK body),
        log := log w @ [(INFO, ''Video('' @ i @ '')''),
                 (INFO, ''  fetching ID('' @ str_opt (id_v loaded) @ '') codec(''
                          @ video_codec best @ '') to ('' @ local_name i best @ '')'')],
        heap := heap w @ [loaded\<lparr>connection := OLDCONN, filename_v := Some (local_name i best)\<rparr>]\<rparr>)"
  using assms
  by (simp add: download_video_def logger_info_def alloc_def Let_def local_name_def
        try_fetch_done [OF assms(4,5)] assign_def)

lemma download_video_refused:
  assumes "find_video env i = Inr loaded" "renditions loaded = Some rs"
    "best_rendition rs = Some best" "url best = Some u"
    "urlopen env u = Inl e" "e = HTTPError c \<or> e = URLError c"
  shows "download_video env i w =
     (Inl (NameError ''url''),
      w\<lparr>log := log w @ [(INFO, ''Video('' @ i @ '')''),
                 (INFO, ''  fetching ID('' @ str_opt (id_v loaded) @ '') codec(''
                          @ video_codec best @ '') to ('' @ local_name i best @ '')'')],
        heap := heap w @ [loaded\<lparr>connection := OLDCONN\<rparr>]\<rparr>)"
  using assms
  by (auto simp add: download_video_def logger_info_def alloc_def Let_def local_name_def
        try_fetch_refused [OF assms(4,5)] load_url_def)

lemma download_video_broken:
  assumes "find_video env i = Inr loaded" "renditions loaded = Some rs"
    "best_rendition rs = Some best" "url best = Some u"
    "urlopen env u = Inr (Response body (Some e))" "e = HTTPError c \<or> e = URLError c"
  shows "download_video env i w =
     (Inl (NameError ''url''),
      w\<lparr>fs := (fs w)(local_name i best \<mapsto> body),
        open_w := (open_w w)(local_name i best := None),
        wtrace := wtrace w @ map (Pair (local_name i best)) (chunks CHUNK body),
        log := log w @ [(INFO, ''Video('' @ i @ '')''),
                 (INFO, ''  fetching ID('' @ str_opt (id_v loaded) @ '') codec(''
                          @ video_codec best @ '') to ('' @ local_name i best @ '')'')],
        heap := heap w @ [loaded\<lparr>connection := OLDCONN\<rparr>]\<rparr>)"
  using assms
  by (auto simp add: download_video_def logger_info_def alloc_def Let_def local_name_def
        try_fetch_broken [OF assms(4,5)] load_url_def)

section \<open>Closed forms of \<open>upload_video\<close> and \<open>process_videos_list\<close>\<close>

lemma upload_video_rejected:
  assumes "a < length (heap w)"
    "create_video env ((heap w ! a)\<lparr>connection := NEWCONN, id_v := None, renditions := None\<rparr>)
       = Inl (IllegalValueError code description)"
  shows "upload_video env (PyRef a) w =
     (Inr PyNone,
      w\<lparr>log := log w @ [(WARNING, ''  Upload error: ('' @ code @ '') - '' @ description)],
        heap := (heap w)[a := (heap w ! a)\<lparr>connection := NEWCONN, id_v := None, renditions := None\<rparr>]\<rparr>)"
  using assms by (simp add: upload_video_def save_def assign_def logger_warn_def Let_def)

lemma upload_video_created:
  assumes "a < length (heap w)"
    "create_video env ((heap w ! a)\<lparr>connection := NEWCONN, id_v := None, renditions := None\<rparr>)
       = Inr new_id"
  shows "upload_video env (PyRef a) w =
     (Inr (PyRef a),
      w\<lparr>heap := (heap w)[a := (heap w ! a)\<lparr>connection := NEWCONN, renditions := None,
                                         id_v := Some new_id\<rparr>]\<rparr>)"
  using assms by (simp add: upload_video_def save_def assign_def Let_def)

lemma upload_video_raises:
  assumes "a < length (heap w)"
    "create_video env ((heap w ! a)\<lparr>connection := NEWCONN, id_v := None, renditions := None\<rparr>)
       = Inl e" "\<forall>c d. e \<noteq> IllegalValueError c d"
  shows "fst (upload_video env (PyRef a) w) = Inl e"
  using assms by (cases e) (simp_all add: upload_video_def save_def assign_def Let_def)

lemma process_videos_list_missing:
  "\<not> isfile w fname \<Longrightarrow>
   process_videos_list env name fname w =
     (Inr (), w\<lparr>log := log w @ [(WARNING, ''File not found! ('' @ fname @ '')'')]\<rparr>)"
  by (simp add: process_videos_list_def logger_warn_def)

lemma process_videos_list_exists:
  "isfile w fname \<Longrightarrow> isfile w (csvfname_of fname) \<Longrightarrow>
   process_videos_list env name fname w =
     (Inl (SystemExit 1),
      w\<lparr>log := log w @ [(INFO, ''Starting ('' @ name @ '')''),
           (CRITICAL, ''CSV file already exists! ('' @ csvfname_of fname @ '').  Exiting.'')]\<rparr>)"
  by (auto simp add: process_videos_list_def logger_info_def logger_critical_def isfile_def Let_def)

section \<open>The claims\<close>

lemma process_ids_skip:
  "download_video env i w = (Inr PyNone, w1) \<Longrightarrow>
   process_ids env csv (i # rest) w = process_ids env csv rest w1"
  by simp

lemma process_ids_raise:
  "download_video env i w = (Inl e, w1) \<Longrightarrow> process_ids env csv (i # rest) w = (Inl e, w1)"
  by simp

text \<open>
  C1.  Rendition selection.  A rendition is eligible exactly when its url is present and
  starts with \<open>http\<close>.  With no eligible rendition the selector returns \<open>None\<close>;
  otherwise it returns an eligible rendition \<open>b\<close> such that every eligible rendition
  seen before it is strictly smaller and every one seen after it is no larger: the
  largest, and the first of the largest.  A video with no eligible rendition makes
  \<open>download_video\<close> return \<open>None\<close> without raising and without touching a file, and the
  batch goes on with the next identifier.
\<close>

theorem rendition_selection:
  "(eligible r \<longleftrightarrow> (\<exists>u. url r = Some u \<and> take 4 u = ''http'')) \<and>
   (filter eligible rs = [] \<longrightarrow> best_rendition rs = None) \<and>
   (filter eligible rs \<noteq> [] \<longrightarrow>
      (\<exists>pre b post. filter eligible rs = pre @ b # post \<and> best_rendition rs = Some b \<and>
         (\<forall>x\<in>set pre. size_r x < size_r b) \<and> (\<forall>x\<in>set post. size_r x \<le> size_r b))) \<and>
   (find_video env i = Inr loaded \<and> renditions loaded = Some rs \<and> filter eligible rs = [] \<longrightarrow>
      fst (download_video env i w) = Inr PyNone \<and>
      fs (snd (download_video env i w)) = fs w \<and>
      wtrace (snd (download_video env i w)) = wtrace w \<and>
      process_ids env csv (i # rest) w =
        process_ids env csv rest (snd (download_video env i w)))"
proof (intro conjI impI)
  show "eligible r \<longleftrightarrow> (\<exists>u. url r = Some u \<and> take 4 u = ''http'')"
    by (cases "url r") (simp_all add: eligible_def startswith_def eval_nat_numeral)
next
  assume "filter eligible rs = []"
  then show "best_rendition rs = None" by (rule best_rendition_none)
next
  assume "filter eligible rs \<noteq> []"
  then show "\<exists>pre b post. filter eligible rs = pre @ b # post \<and> best_rendition rs = Some b \<and>
         (\<forall>x\<in>set pre. size_r x < size_r b) \<and> (\<forall>x\<in>set post. size_r x \<le> size_r b)"
    by (rule best_rendition_first_max)
next
  assume a: "find_video env i = Inr loaded \<and> renditions loaded = Some rs \<and>
             filter eligible rs = []"
  then have none: "best_rendition rs = None" by (simp add: best_rendition_none)
  have dl: "download_video env i w =
     (Inr PyNone,
      w\<lparr>log := log w @ [(INFO, ''Video('' @ i @ '')''),
                         (WARNING, ''  No best rendition found for ('' @ i @ ''). Skipping.'')],
        heap := heap w @ [loaded\<lparr>connection := OLDCONN\<rparr>]\<rparr>)"
    using a none by (simp add: download_video_no_rendition)
  show "fst (download_video env i w) = Inr PyNone" by (simp add: dl)
  show "fs (snd (download_video env i w)) = fs w" by (simp add: dl)
  show "wtrace (snd (download_video env i w)) = wtrace w" by (simp add: dl)
  show "process_ids env csv (i # rest) w =
        process_ids env csv rest (snd (download_video env i w))"
    using process_ids_skip [OF dl] by (simp add: dl)
qed

theorem rendition_selection_witness:
  "eligible exr_high \<and>
   filter eligible [exr_rtmp, exr_nourl] = [] \<and>
   best_rendition [exr_rtmp, exr_nourl] = None \<and>
   filter eligible [exr_low, exr_high, exr_tie, exr_rtmp, exr_nourl]
     = [exr_low, exr_high, exr_tie] \<and>
   best_rendition [exr_low, exr_high, exr_tie, exr_rtmp, exr_nourl] = Some exr_high \<and>
   fst (download_video ex_remote ''D'' (ex_world [])) = Inr PyNone"
proof -
  have e: "eligible exr_low" "eligible exr_high" "eligible exr_tie"
    "\<not> eligible exr_rtmp" "\<not> eligible exr_nourl"
    by (simp_all add: eligible_def startswith_def exr_low_def exr_high_def exr_tie_def
          exr_rtmp_def exr_nourl_def)
  have f: "find_video ex_remote ''D'' = Inr (ex_video ''D'' [exr_rtmp, exr_nourl])"
    "renditions (ex_video ''D'' [exr_rtmp, exr_nourl]) = Some [exr_rtmp, exr_nourl]"
    by (simp_all add: ex_remote_def ex_video_def)
  have b: "best_rendition [exr_low, exr_high, exr_tie, exr_rtmp, exr_nourl] = Some exr_high"
    using e by (simp add: best_rendition_def best_step_def exr_low_def exr_high_def exr_tie_def)
  show ?thesis
    using rendition_selection [of exr_high "[exr_rtmp, exr_nourl]" ex_remote "''D''"
        "ex_video ''D'' [exr_rtmp, exr_nourl]" "ex_world []" "''csv''" "[]"] e f b
    by simp
qed

end
